theory Spec2Isabelle
  imports Main "HOL-Library.Sublist" "HOL-Library.AList"
begin

section \<open>Python values, exceptions and builtins\<close>

text \<open>
  The values that reach the envelope's fields: \<open>None\<close>, strings, integers and floats.
  Python's \<open>float\<close> is kept abstract (the type variable \<open>'f\<close>): the protocol only
  parses, prints and stores floats, it never computes with them.
\<close>

datatype 'f pyval = PyNone | PyStr string | PyInt int | PyFloat 'f

text \<open>
  The exceptions of the modelled code paths. \<open>ValidationError\<close> is pydantic's; it
  carries the names of the fields whose validation failed.
\<close>

datatype error = TypeError | ValueError | AttributeError | IndexError
  | ValidationError "string list"

text \<open>
  The conversions of the Python builtins \<open>int\<close>, \<open>float\<close> and \<open>str\<close> are not part
  of the repository; they are parameters of the model. \<open>None\<close> stands for the builtin
  raising (\<open>int('x')\<close> raises ValueError). \<open>float_12\<close> is the float literal \<open>12.0\<close>.
\<close>

record 'f builtins =
  int_str :: "string \<Rightarrow> int option"
  int_float :: "'f \<Rightarrow> int option"
  float_str :: "string \<Rightarrow> 'f option"
  float_int :: "int \<Rightarrow> 'f option"
  str_int :: "int \<Rightarrow> string"
  str_float :: "'f \<Rightarrow> string"
  float_12 :: "'f"

fun py_int :: "'f builtins \<Rightarrow> 'f pyval \<Rightarrow> error + int" where
  "py_int B PyNone = Inl TypeError"
| "py_int B (PyStr s) = (case int_str B s of None \<Rightarrow> Inl ValueError | Some n \<Rightarrow> Inr n)"
| "py_int B (PyInt n) = Inr n"
| "py_int B (PyFloat x) = (case int_float B x of None \<Rightarrow> Inl ValueError | Some n \<Rightarrow> Inr n)"

fun py_float :: "'f builtins \<Rightarrow> 'f pyval \<Rightarrow> error + 'f" where
  "py_float B PyNone = Inl TypeError"
| "py_float B (PyStr s) = (case float_str B s of None \<Rightarrow> Inl ValueError | Some x \<Rightarrow> Inr x)"
| "py_float B (PyInt n) = (case float_int B n of None \<Rightarrow> Inl ValueError | Some x \<Rightarrow> Inr x)"
| "py_float B (PyFloat x) = Inr x"

fun py_str :: "'f builtins \<Rightarrow> 'f pyval \<Rightarrow> string" where
  "py_str B PyNone = ''None''"
| "py_str B (PyStr s) = s"
| "py_str B (PyInt n) = str_int B n"
| "py_str B (PyFloat x) = str_float B x"

fun opt_int :: "int option \<Rightarrow> 'f pyval" where
  "opt_int None = PyNone"
| "opt_int (Some n) = PyInt n"

fun opt_str :: "string option \<Rightarrow> 'f pyval" where
  "opt_str None = PyNone"
| "opt_str (Some s) = PyStr s"

fun opt_float :: "'f option \<Rightarrow> 'f pyval" where
  "opt_float None = PyNone"
| "opt_float (Some x) = PyFloat x"

section \<open>Field coercion\<close>

text \<open>
  \<^verbatim>\<open>def cast_int(raw):   return int( raw ) if raw != None else raw\<close>
  \<^verbatim>\<open>def cast_float(raw): return float( raw ) if raw != None else raw\<close>
\<close>

definition cast_int :: "'f builtins \<Rightarrow> 'f pyval \<Rightarrow> error + 'f pyval" where
  "cast_int B raw =
     (if raw \<noteq> PyNone
      then (case py_int B raw of Inl e \<Rightarrow> Inl e | Inr n \<Rightarrow> Inr (PyInt n))
      else Inr raw)"

definition cast_float :: "'f builtins \<Rightarrow> 'f pyval \<Rightarrow> error + 'f pyval" where
  "cast_float B raw =
     (if raw \<noteq> PyNone
      then (case py_float B raw of Inl e \<Rightarrow> Inl e | Inr x \<Rightarrow> Inr (PyFloat x))
      else Inr raw)"

text \<open>
  pydantic's own validation of a value for a field annotated \<open>Optional[int]\<close>,
  \<open>Optional[float]\<close> or \<open>Optional[str]\<close>: \<open>None\<close> is kept, a value of the type is
  kept, any other value is coerced with the builtin of the type.
\<close>

fun optional_int :: "'f builtins \<Rightarrow> 'f pyval \<Rightarrow> error + int option" where
  "optional_int B PyNone = Inr None"
| "optional_int B v = (case py_int B v of Inl e \<Rightarrow> Inl e | Inr n \<Rightarrow> Inr (Some n))"

fun optional_float :: "'f builtins \<Rightarrow> 'f pyval \<Rightarrow> error + 'f option" where
  "optional_float B PyNone = Inr None"
| "optional_float B v = (case py_float B v of Inl e \<Rightarrow> Inl e | Inr x \<Rightarrow> Inr (Some x))"

fun optional_str :: "'f builtins \<Rightarrow> 'f pyval \<Rightarrow> error + string option" where
  "optional_str B PyNone = Inr None"
| "optional_str B v = Inr (Some (py_str B v))"

text \<open>
  A field with a \<open>pre=True\<close> validator: the validator runs first, pydantic's own
  validation of the annotated type runs on its result.
\<close>

definition pre_validated ::
  "('f pyval \<Rightarrow> error + 'f pyval) \<Rightarrow> ('f pyval \<Rightarrow> error + 'a) \<Rightarrow> 'f pyval \<Rightarrow> error + 'a" where
  "pre_validated pre validate v = (case pre v of Inl e \<Rightarrow> Inl e | Inr v' \<Rightarrow> validate v')"

section \<open>TerminalInfo\<close>

record 'f TerminalInfo =
  status_code :: "int option"
  status_message :: "string option"
  process_time :: "'f option"
  ip :: "string option"
  port :: "int option"
  version :: "int option"
  nonce :: "int option"
  uuid :: "string option"
  hotkey :: "string option"
  signature :: "string option"

text \<open>\<open>TerminalInfo()\<close>: every field has the default \<open>None\<close>.\<close>

definition TerminalInfo_default :: "'f TerminalInfo" where
  "TerminalInfo_default =
     \<lparr>status_code = None, status_message = None, process_time = None, ip = None,
      port = None, version = None, nonce = None, uuid = None, hotkey = None,
      signature = None\<rparr>"

text \<open>\<open>TerminalInfo.dict()\<close>: the fields in declaration order.\<close>

definition TerminalInfo_dict :: "'f TerminalInfo \<Rightarrow> (string \<times> 'f pyval) list" where
  "TerminalInfo_dict t =
     [(''status_code'', opt_int (status_code t)),
      (''status_message'', opt_str (status_message t)),
      (''process_time'', opt_float (process_time t)),
      (''ip'', opt_str (ip t)),
      (''port'', opt_int (port t)),
      (''version'', opt_int (version t)),
      (''nonce'', opt_int (nonce t)),
      (''uuid'', opt_str (uuid t)),
      (''hotkey'', opt_str (hotkey t)),
      (''signature'', opt_str (signature t))]"

text \<open>
  Assignment to a field under \<open>validate_assignment = True\<close>: the value is validated;
  a validator that raises makes the assignment raise \<open>ValidationError\<close> for that field
  and leaves the object as it was.
\<close>

definition assigned :: "string \<Rightarrow> error + 'a \<Rightarrow> ('a \<Rightarrow> 'b) \<Rightarrow> error + 'b" where
  "assigned k r store = (case r of Inl e \<Rightarrow> Inl (ValidationError [k]) | Inr x \<Rightarrow> Inr (store x))"

text \<open>
  \<open>setattr(t, k, v)\<close> on a TerminalInfo. A name that is not a field is rejected by
  pydantic with ValueError (object has no field); the names that pydantic reserves for
  its own attributes are not modelled.
\<close>

definition TerminalInfo_setattr ::
  "'f builtins \<Rightarrow> 'f TerminalInfo \<Rightarrow> string \<Rightarrow> 'f pyval \<Rightarrow> error + 'f TerminalInfo" where
  "TerminalInfo_setattr B t k v =
     (if k = ''status_code'' then
        assigned k (pre_validated (cast_int B) (optional_int B) v) (\<lambda>x. t\<lparr>status_code := x\<rparr>)
      else if k = ''status_message'' then
        assigned k (optional_str B v) (\<lambda>x. t\<lparr>status_message := x\<rparr>)
      else if k = ''process_time'' then
        assigned k (pre_validated (cast_float B) (optional_float B) v) (\<lambda>x. t\<lparr>process_time := x\<rparr>)
      else if k = ''ip'' then
        assigned k (optional_str B v) (\<lambda>x. t\<lparr>ip := x\<rparr>)
      else if k = ''port'' then
        assigned k (pre_validated (cast_int B) (optional_int B) v) (\<lambda>x. t\<lparr>port := x\<rparr>)
      else if k = ''version'' then
        assigned k (pre_validated (cast_int B) (optional_int B) v) (\<lambda>x. t\<lparr>version := x\<rparr>)
      else if k = ''nonce'' then
        assigned k (pre_validated (cast_int B) (optional_int B) v) (\<lambda>x. t\<lparr>nonce := x\<rparr>)
      else if k = ''uuid'' then
        assigned k (optional_str B v) (\<lambda>x. t\<lparr>uuid := x\<rparr>)
      else if k = ''hotkey'' then
        assigned k (optional_str B v) (\<lambda>x. t\<lparr>hotkey := x\<rparr>)
      else if k = ''signature'' then
        assigned k (optional_str B v) (\<lambda>x. t\<lparr>signature := x\<rparr>)
      else Inl ValueError)"


text \<open>
  Construction of a pydantic model from keyword arguments: for each field in
  declaration order, an argument that is absent gives the field its default (not
  validated), an argument that is present is validated. The errors of all fields are
  collected into one \<open>ValidationError\<close>.
\<close>

definition init_field ::
  "(string \<times> 'a) list \<Rightarrow> string \<Rightarrow> 'b \<Rightarrow> ('a \<Rightarrow> error + 'b) \<Rightarrow> error + 'b" where
  "init_field values k dflt validate =
     (case map_of values k of None \<Rightarrow> Inr dflt | Some v \<Rightarrow> validate v)"

fun failed :: "string \<Rightarrow> error + 'a \<Rightarrow> string list" where
  "failed k (Inl e) = [k]"
| "failed k (Inr x) = []"

fun valid :: "error + 'a option \<Rightarrow> 'a option" where
  "valid (Inr x) = x"
| "valid (Inl e) = None"

definition TerminalInfo_init ::
  "'f builtins \<Rightarrow> (string \<times> 'f pyval) list \<Rightarrow> error + 'f TerminalInfo" where
  "TerminalInfo_init B values =
     (let r_status_code = init_field values ''status_code'' None
            (pre_validated (cast_int B) (optional_int B));
          r_status_message = init_field values ''status_message'' None (optional_str B);
          r_process_time = init_field values ''process_time'' None
            (pre_validated (cast_float B) (optional_float B));
          r_ip = init_field values ''ip'' None (optional_str B);
          r_port = init_field values ''port'' None
            (pre_validated (cast_int B) (optional_int B));
          r_version = init_field values ''version'' None
            (pre_validated (cast_int B) (optional_int B));
          r_nonce = init_field values ''nonce'' None
            (pre_validated (cast_int B) (optional_int B));
          r_uuid = init_field values ''uuid'' None (optional_str B);
          r_hotkey = init_field values ''hotkey'' None (optional_str B);
          r_signature = init_field values ''signature'' None (optional_str B);
          errors = failed ''status_code'' r_status_code
            @ failed ''status_message'' r_status_message
            @ failed ''process_time'' r_process_time
            @ failed ''ip'' r_ip
            @ failed ''port'' r_port
            @ failed ''version'' r_version
            @ failed ''nonce'' r_nonce
            @ failed ''uuid'' r_uuid
            @ failed ''hotkey'' r_hotkey
            @ failed ''signature'' r_signature
      in if errors = []
         then Inr \<lparr>status_code = valid r_status_code,
                   status_message = valid r_status_message,
                   process_time = valid r_process_time,
                   ip = valid r_ip,
                   port = valid r_port,
                   version = valid r_version,
                   nonce = valid r_nonce,
                   uuid = valid r_uuid,
                   hotkey = valid r_hotkey,
                   signature = valid r_signature\<rparr>
         else Inl (ValidationError errors))"

section \<open>Synapse\<close>

record 'f Synapse =
  name :: "string option"
  timeout :: "'f option"
  dendrite :: "'f TerminalInfo option"
  axon :: "'f TerminalInfo option"

text \<open>
  What can be passed for a field of a Synapse: a plain value, a dict (the form
  \<open>Synapse.dict()\<close> gives to a nested model) or a TerminalInfo object.
\<close>

datatype 'f arg = Val "'f pyval" | Dict "(string \<times> 'f pyval) list" | Model "'f TerminalInfo"

fun arg_str :: "'f builtins \<Rightarrow> 'f arg \<Rightarrow> error + string option" where
  "arg_str B (Val v) = optional_str B v"
| "arg_str B a = Inl TypeError"

fun arg_float :: "'f builtins \<Rightarrow> 'f arg \<Rightarrow> error + 'f option" where
  "arg_float B (Val v) = optional_float B v"
| "arg_float B a = Inl TypeError"

text \<open>
  A field annotated \<open>Optional[TerminalInfo]\<close>: \<open>None\<close> is kept, an object of the
  class is taken with its values, a dict is passed to the constructor, any other value
  is rejected.
\<close>

fun arg_terminal :: "'f builtins \<Rightarrow> 'f arg \<Rightarrow> error + 'f TerminalInfo option" where
  "arg_terminal B (Val PyNone) = Inr None"
| "arg_terminal B (Val v) = Inl TypeError"
| "arg_terminal B (Dict d) =
     (case TerminalInfo_init B d of Inl e \<Rightarrow> Inl e | Inr t \<Rightarrow> Inr (Some t))"
| "arg_terminal B (Model t) = Inr (Some t)"

text \<open>
  \<^verbatim>\<open>@pydantic.root_validator(pre=True)\<close>
  \<^verbatim>\<open>def set_name_type(cls, values):\<close>
  \<^verbatim>\<open>    values['name'] = cls.__name__\<close>
  \<^verbatim>\<open>    return values\<close>
  The class is represented by its name.
\<close>

definition set_name_type :: "string \<Rightarrow> (string \<times> 'f arg) list \<Rightarrow> (string \<times> 'f arg) list" where
  "set_name_type cls values = AList.update ''name'' (Val (PyStr cls)) values"

text \<open>
  \<open>cls(**values)\<close> for \<open>Synapse\<close> or a class derived from it (whose further fields
  are not modelled): the pre root validator runs on the arguments, then the fields are
  filled. The defaults of \<open>dendrite\<close> and \<open>axon\<close> are copies of \<open>TerminalInfo()\<close>.
\<close>

definition Synapse_init ::
  "'f builtins \<Rightarrow> string \<Rightarrow> (string \<times> 'f arg) list \<Rightarrow> error + 'f Synapse" where
  "Synapse_init B cls kwargs =
     (let values = set_name_type cls kwargs;
          r_name = init_field values ''name'' None (arg_str B);
          r_timeout = init_field values ''timeout'' (Some (float_12 B)) (arg_float B);
          r_dendrite = init_field values ''dendrite'' (Some TerminalInfo_default) (arg_terminal B);
          r_axon = init_field values ''axon'' (Some TerminalInfo_default) (arg_terminal B);
          errors = failed ''name'' r_name @ failed ''timeout'' r_timeout
            @ failed ''dendrite'' r_dendrite @ failed ''axon'' r_axon
      in if errors = []
         then Inr \<lparr>name = valid r_name, timeout = valid r_timeout,
                   dendrite = valid r_dendrite, axon = valid r_axon\<rparr>
         else Inl (ValidationError errors))"

text \<open>
  \<open>setattr(s, k, v)\<close> on an object of class \<open>cls\<close> under
  \<open>validate_assignment = True\<close>: pydantic builds the new values from the current ones
  and the assigned one, runs the pre root validator on them (which sets \<open>name\<close> to the
  class name), validates the assigned value for its field and stores the validated
  value; every field is declared with \<open>allow_mutation = True\<close>.
\<close>

definition Synapse_setattr ::
  "'f builtins \<Rightarrow> string \<Rightarrow> 'f Synapse \<Rightarrow> string \<Rightarrow> 'f arg \<Rightarrow> error + 'f Synapse" where
  "Synapse_setattr B cls s k v =
     (let new_values = s\<lparr>name := Some cls\<rparr> in
      if k = ''name'' then
        assigned k (arg_str B v) (\<lambda>x. new_values\<lparr>name := x\<rparr>)
      else if k = ''timeout'' then
        assigned k (arg_float B v) (\<lambda>x. new_values\<lparr>timeout := x\<rparr>)
      else if k = ''dendrite'' then
        assigned k (arg_terminal B v) (\<lambda>x. new_values\<lparr>dendrite := x\<rparr>)
      else if k = ''axon'' then
        assigned k (arg_terminal B v) (\<lambda>x. new_values\<lparr>axon := x\<rparr>)
      else Inl ValueError)"

text \<open>\<open>Synapse.dict()\<close>: nested models are turned into dicts.\<close>

fun terminal_arg :: "'f TerminalInfo option \<Rightarrow> 'f arg" where
  "terminal_arg None = Val PyNone"
| "terminal_arg (Some t) = Dict (TerminalInfo_dict t)"

definition Synapse_dict :: "'f Synapse \<Rightarrow> (string \<times> 'f arg) list" where
  "Synapse_dict s =
     [(''name'', Val (opt_str (name s))),
      (''timeout'', Val (opt_float (timeout s))),
      (''dendrite'', terminal_arg (dendrite s)),
      (''axon'', terminal_arg (axon s))]"

section \<open>Header maps\<close>

text \<open>
  A header map is a Python dict from strings to strings: an association list with
  distinct keys, in insertion order. \<open>d[k] = v\<close> replaces the value of a key in place
  and appends a new key (\<open>AList.update\<close>); \<open>headers.get(k, None)\<close> is \<open>map_of\<close>;
  \<open>headers.items()\<close> is the list itself.
\<close>

type_synonym headers = "(string \<times> string) list"

definition dict_update :: "headers \<Rightarrow> headers \<Rightarrow> headers" where
  "dict_update h items = fold (\<lambda>(k, v). AList.update k v) items h"

definition dict_of :: "(string \<times> string) list \<Rightarrow> headers" where
  "dict_of items = dict_update [] items"

text \<open>
  \<open>s.split(sep)\<close> for a non-empty separator: the pieces between the occurrences of
  \<open>sep\<close>, found from the left without overlap. \<open>n\<close> counts the characters of a
  matched separator that are still to be skipped, \<open>cur\<close> is the piece being read.
\<close>

fun split_from :: "string \<Rightarrow> nat \<Rightarrow> string \<Rightarrow> string \<Rightarrow> string list" where
  "split_from sep n cur [] = [cur]"
| "split_from sep n cur (c # cs) =
     (if 0 < n then split_from sep (n - 1) cur cs
      else if prefix sep (c # cs) then cur # split_from sep (length sep - 1) [] cs
      else split_from sep 0 (cur @ [c]) cs)"

definition str_split :: "string \<Rightarrow> string \<Rightarrow> string list" where
  "str_split s sep = split_from sep 0 [] s"

text \<open>\<open>xs[i]\<close> for \<open>i \<ge> 0\<close>: IndexError out of range.\<close>

definition py_index :: "'a list \<Rightarrow> nat \<Rightarrow> error + 'a" where
  "py_index xs i = (if i < length xs then Inr (xs ! i) else Inl IndexError)"


section \<open>Encoding and decoding\<close>

text \<open>
  The comprehension of \<open>to_headers\<close>:
  \<^verbatim>\<open>{ str('axon_'+k):str(v) for k, v in base_class.axon.dict().items() if v != None}\<close>
\<close>

definition prefixed_items :: "'f builtins \<Rightarrow> string \<Rightarrow> 'f TerminalInfo \<Rightarrow> (string \<times> string) list" where
  "prefixed_items B p t = [(p @ k, py_str B v). (k, v) \<leftarrow> TerminalInfo_dict t, v \<noteq> PyNone]"

text \<open>
  \<^verbatim>\<open>def to_headers(self) -> dict:\<close>
  \<^verbatim>\<open>    base_class = Synapse(**self.dict())\<close>
  \<^verbatim>\<open>    headers = { 'name': base_class.name, 'timeout': str(base_class.timeout), }\<close>
  \<^verbatim>\<open>    headers.update( { ... 'axon_' ... } )\<close>
  \<^verbatim>\<open>    headers.update( { ... 'dendrite_' ... } )\<close>
  \<^verbatim>\<open>    return headers\<close>
  The name of a constructed Synapse is never \<open>None\<close> (the root validator has set it),
  so the first \<open>None\<close> branch below is not reached. \<open>.dict()\<close> on an \<open>axon\<close> or
  \<open>dendrite\<close> that is \<open>None\<close> raises AttributeError.
\<close>

definition to_headers :: "'f builtins \<Rightarrow> 'f Synapse \<Rightarrow> error + headers" where
  "to_headers B self =
     (case Synapse_init B ''Synapse'' (Synapse_dict self) of
        Inl e \<Rightarrow> Inl e
      | Inr base_class \<Rightarrow>
          (case name base_class of
             None \<Rightarrow> Inl TypeError
           | Some n \<Rightarrow>
               (let headers = [(''name'', n),
                               (''timeout'', py_str B (opt_float (timeout base_class)))]
                in case axon base_class of
                     None \<Rightarrow> Inl AttributeError
                   | Some a \<Rightarrow>
                       (let headers = dict_update headers (dict_of (prefixed_items B ''axon_'' a))
                        in case dendrite base_class of
                             None \<Rightarrow> Inl AttributeError
                           | Some d \<Rightarrow>
                               Inr (dict_update headers
                                      (dict_of (prefixed_items B ''dendrite_'' d)))))))"

text \<open>
  One \<open>try\<close> block of the decoding loop, for the separator \<open>sep\<close> and the terminal it
  assigns to:
  \<^verbatim>\<open>try:\<close>
  \<^verbatim>\<open>    k = k.split('axon_')[1]\<close>
  \<^verbatim>\<open>    setattr( synapse.axon, k, v )\<close>
  \<^verbatim>\<open>except: pass\<close>
  It returns the value of \<open>k\<close> after the block and the terminal. When the index
  raises, \<open>k\<close> is not assigned. When \<open>setattr\<close> raises, \<open>k\<close> has been assigned and
  the terminal is as it was. \<open>setattr\<close> on \<open>None\<close> raises AttributeError.
\<close>

definition try_set ::
  "'f builtins \<Rightarrow> string \<Rightarrow> string \<Rightarrow> string \<Rightarrow> 'f TerminalInfo option
     \<Rightarrow> string \<times> 'f TerminalInfo option" where
  "try_set B sep k v terminal =
     (case py_index (str_split k sep) 1 of
        Inl e \<Rightarrow> (k, terminal)
      | Inr k' \<Rightarrow>
          (k', case terminal of
                 None \<Rightarrow> None
               | Some t \<Rightarrow>
                   (case TerminalInfo_setattr B t k' (PyStr v) of
                      Inl e \<Rightarrow> Some t
                    | Inr t' \<Rightarrow> Some t')))"

text \<open>The body of the loop \<open>for k, v in headers.items()\<close>: both blocks, in order.\<close>

definition from_headers_item :: "'f builtins \<Rightarrow> string \<times> string \<Rightarrow> 'f Synapse \<Rightarrow> 'f Synapse" where
  "from_headers_item B kv synapse =
     (case kv of (k, v) \<Rightarrow>
        (case try_set B ''axon_'' k v (axon synapse) of (k1, a) \<Rightarrow>
           (case try_set B ''dendrite_'' k1 v (dendrite (synapse\<lparr>axon := a\<rparr>)) of (k2, d) \<Rightarrow>
              synapse\<lparr>axon := a, dendrite := d\<rparr>)))"

text \<open>
  \<^verbatim>\<open>def from_headers( headers: dict ) -> 'Synapse':\<close>
  \<^verbatim>\<open>    synapse = bittensor.Synapse()\<close>
  \<^verbatim>\<open>    synapse.timeout = float(headers.get('timeout', None))\<close>
  \<^verbatim>\<open>    synapse.name = headers.get('name', None)\<close>
  \<^verbatim>\<open>    for k, v in headers.items(): ...\<close>
  \<^verbatim>\<open>    return synapse\<close>
  \<open>bittensor.Synapse\<close> is the class \<open>Synapse\<close> itself, exported by the package.
\<close>

definition from_headers :: "'f builtins \<Rightarrow> headers \<Rightarrow> error + 'f Synapse" where
  "from_headers B headers =
     (case Synapse_init B ''Synapse'' [] of
        Inl e \<Rightarrow> Inl e
      | Inr synapse \<Rightarrow>
          (case py_float B (opt_str (map_of headers ''timeout'')) of
             Inl e \<Rightarrow> Inl e
           | Inr t \<Rightarrow>
               (case Synapse_setattr B ''Synapse'' synapse ''timeout'' (Val (PyFloat t)) of
                  Inl e \<Rightarrow> Inl e
                | Inr synapse1 \<Rightarrow>
                    (case Synapse_setattr B ''Synapse'' synapse1 ''name''
                            (Val (opt_str (map_of headers ''name''))) of
                       Inl e \<Rightarrow> Inl e
                     | Inr synapse2 \<Rightarrow> Inr (fold (from_headers_item B) headers synapse2)))))"

section \<open>The builtins on decimal numerals\<close>

text \<open>
  An instance of the builtins, used to run the model on examples. Integers are printed
  in base 10 as \<open>str\<close> does. A float is a finite decimal (sign, digits, number of
  digits after the point), printed in positional notation with at least one digit after
  the point, which is how \<open>str\<close> prints a float of at most 15 significant digits and
  magnitude between 1e-4 and 1e16. The parsers accept surrounding whitespace, a sign,
  and plain digits (with a point for floats); the forms that \<open>int\<close> and \<open>float\<close> accept
  beyond that (underscores, exponents, \<open>inf\<close>, \<open>nan\<close>) do not occur in the examples.
\<close>

definition digit_chars :: string where
  "digit_chars = ''0123456789''"

fun digits :: "nat \<Rightarrow> string" where
  "digits n = (if n < 10 then [digit_chars ! n] else digits (n div 10) @ [digit_chars ! (n mod 10)])"

declare digits.simps [simp del]

definition digit_val :: "char \<Rightarrow> nat option" where
  "digit_val c = map_of (zip digit_chars [0, 1, 2, 3, 4, 5, 6, 7, 8, 9]) c"

fun digits_val :: "nat \<Rightarrow> string \<Rightarrow> nat option" where
  "digits_val acc [] = Some acc"
| "digits_val acc (c # cs) =
     (case digit_val c of None \<Rightarrow> None | Some d \<Rightarrow> digits_val (10 * acc + d) cs)"

definition is_space :: "char \<Rightarrow> bool" where
  "is_space c = (c \<in> set [CHR 0x09, CHR 0x0A, CHR 0x0B, CHR 0x0C, CHR 0x0D, CHR 0x20])"

definition strip :: "string \<Rightarrow> string" where
  "strip s = rev (dropWhile is_space (rev (dropWhile is_space s)))"

fun parse_sign :: "string \<Rightarrow> bool \<times> string" where
  "parse_sign [] = (False, [])"
| "parse_sign (c # cs) =
     (if c = CHR ''-'' then (True, cs) else if c = CHR ''+'' then (False, cs) else (False, c # cs))"

definition dec_int :: "string \<Rightarrow> int option" where
  "dec_int s =
     (case parse_sign (strip s) of (neg, ds) \<Rightarrow>
        if ds = [] then None
        else (case digits_val 0 ds of
                None \<Rightarrow> None
              | Some n \<Rightarrow> Some (if neg then - int n else int n)))"

definition dec_str :: "int \<Rightarrow> string" where
  "dec_str n = (if n < 0 then CHR ''-'' # digits (nat (- n)) else digits (nat n))"

datatype dfloat = DFloat bool nat nat

fun normal :: "nat \<Rightarrow> nat \<Rightarrow> nat \<times> nat" where
  "normal m 0 = (m, 0)"
| "normal m (Suc e) = (if m mod 10 = 0 then normal (m div 10) e else (m, Suc e))"

definition dec_float :: "string \<Rightarrow> dfloat option" where
  "dec_float s =
     (case parse_sign (strip s) of (neg, ds) \<Rightarrow>
        (let ip = takeWhile (\<lambda>c. c \<noteq> CHR ''.'') ds;
             fp = drop 1 (dropWhile (\<lambda>c. c \<noteq> CHR ''.'') ds)
         in if ip @ fp = [] then None
            else (case digits_val 0 (ip @ fp) of
                    None \<Rightarrow> None
                  | Some m \<Rightarrow> (case normal m (length fp) of (m', e) \<Rightarrow> Some (DFloat neg m' e)))))"

fun dec_str_float :: "dfloat \<Rightarrow> string" where
  "dec_str_float (DFloat neg m e) =
     (if neg then ''-'' else []) @ digits (m div 10 ^ e) @ ''.''
       @ (if e = 0 then ''0''
          else replicate (e - length (digits (m mod 10 ^ e))) (CHR ''0'') @ digits (m mod 10 ^ e))"

fun dec_int_float :: "dfloat \<Rightarrow> int option" where
  "dec_int_float (DFloat neg m e) =
     Some (if neg then - int (m div 10 ^ e) else int (m div 10 ^ e))"

definition dec_float_int :: "int \<Rightarrow> dfloat option" where
  "dec_float_int n = Some (DFloat (n < 0) (nat \<bar>n\<bar>) 0)"

definition decimal :: "dfloat builtins" where
  "decimal =
     \<lparr>int_str = dec_int, int_float = dec_int_float, float_str = dec_float,
      float_int = dec_float_int, str_int = dec_str, str_float = dec_str_float,
      float_12 = DFloat False 12 0\<rparr>"

section \<open>Notions used in the statements\<close>

text \<open>The field names of a TerminalInfo, in declaration order.\<close>

definition TerminalInfo_fields :: "string list" where
  "TerminalInfo_fields = [''status_code'', ''status_message'', ''process_time'', ''ip'', ''port'',
     ''version'', ''nonce'', ''uuid'', ''hotkey'', ''signature'']"

text \<open>
  What one block of the decoding loop does to a terminal: the assignment, or nothing when
  the assignment raises. \<open>decode_terminal\<close> runs it over a list of items.
\<close>

definition set_or_keep :: "'f builtins \<Rightarrow> 'f TerminalInfo \<Rightarrow> string \<Rightarrow> string \<Rightarrow> 'f TerminalInfo" where
  "set_or_keep B t k v = (case TerminalInfo_setattr B t k (PyStr v) of Inl e \<Rightarrow> t | Inr t' \<Rightarrow> t')"

definition decode_terminal ::
  "'f builtins \<Rightarrow> (string \<times> string) list \<Rightarrow> 'f TerminalInfo \<Rightarrow> 'f TerminalInfo" where
  "decode_terminal B items t = fold (\<lambda>(k, v) t. set_or_keep B t k v) items t"

text \<open>The items that one field contributes to the comprehension of \<open>to_headers\<close>.\<close>

definition entry :: "'f builtins \<Rightarrow> string \<Rightarrow> 'f pyval \<Rightarrow> (string \<times> string) list" where
  "entry B k v = (if v \<noteq> PyNone then [(k, py_str B v)] else [])"

text \<open>
  The builtins read back the numbers they print: \<open>int(str(n)) == n\<close> and
  \<open>float(str(x)) == x\<close>, for the numbers stored in a terminal and in the timeout
  of a Synapse. A field that is \<open>None\<close> holds no number.
\<close>

fun reparses_int :: "'f builtins \<Rightarrow> int option \<Rightarrow> bool" where
  "reparses_int B None = True"
| "reparses_int B (Some n) = (int_str B (str_int B n) = Some n)"

fun reparses_float :: "'f builtins \<Rightarrow> 'f option \<Rightarrow> bool" where
  "reparses_float B None = True"
| "reparses_float B (Some x) = (float_str B (str_float B x) = Some x)"

definition terminal_reparses :: "'f builtins \<Rightarrow> 'f TerminalInfo \<Rightarrow> bool" where
  "terminal_reparses B t =
     (reparses_int B (status_code t) \<and> reparses_float B (process_time t) \<and> reparses_int B (port t)
      \<and> reparses_int B (version t) \<and> reparses_int B (nonce t))"

definition numerals_reparse :: "'f builtins \<Rightarrow> 'f Synapse \<Rightarrow> bool" where
  "numerals_reparse B s =
     (reparses_float B (timeout s)
      \<and> (case axon s of None \<Rightarrow> True | Some a \<Rightarrow> terminal_reparses B a)
      \<and> (case dendrite s of None \<Rightarrow> True | Some d \<Rightarrow> terminal_reparses B d))"

text \<open>Decoding the encoding of a Synapse, and encoding the decoding of a header map.\<close>

definition decode_encoded :: "'f builtins \<Rightarrow> 'f Synapse \<Rightarrow> error + 'f Synapse" where
  "decode_encoded B s = (case to_headers B s of Inl e \<Rightarrow> Inl e | Inr H \<Rightarrow> from_headers B H)"

definition encode_decoded :: "'f builtins \<Rightarrow> headers \<Rightarrow> error + headers" where
  "encode_decoded B H = (case from_headers B H of Inl e \<Rightarrow> Inl e | Inr s \<Rightarrow> to_headers B s)"

text \<open>
  A call returns when its result is a value. A result \<open>Inl e\<close> is the exception
  \<open>e\<close> leaving the function: nothing is returned to the caller.
\<close>

definition returns :: "error + 'a \<Rightarrow> bool" where
  "returns r = (case r of Inl e \<Rightarrow> False | Inr x \<Rightarrow> True)"

text \<open>
  Examples: a terminal filled with the example values of the field declarations, a
  call of the class named \<open>cls\<close> with both terminals filled, its header map, and the
  scenario \<^verbatim>\<open>Synapse(name="Forward", timeout=12.0, axon=TerminalInfo(hotkey="5Enj...", nonce=111111)).to_headers()\<close>.
\<close>

definition example_terminal :: "dfloat TerminalInfo" where
  "example_terminal =
     \<lparr>status_code = Some 200, status_message = Some ''Success'',
      process_time = Some (DFloat False 1 1), ip = Some ''198.123.23.1'', port = Some 9282,
      version = Some 111, nonce = Some 111111,
      uuid = Some ''5ecbd69c-1cec-11ee-b0dc-e29ce36fec1a'',
      hotkey = Some ''5EnjDGNqqWnuL2HCAdxeEtN2oqtXZw6BMBe936Kfy2PFz1J1'',
      signature = Some ''0x0813029319030129u4120u10841824y0182u091u230912u''\<rparr>"

definition example_call :: "string \<Rightarrow> dfloat Synapse" where
  "example_call cls =
     \<lparr>name = Some cls, timeout = Some (DFloat False 12 0),
      dendrite = Some example_terminal, axon = Some (example_terminal\<lparr>port := Some 8091\<rparr>)\<rparr>"

definition example_headers :: headers where
  "example_headers =
     [(''name'', ''Synapse''), (''timeout'', ''12.0''),
      (''axon_status_code'', ''200''), (''axon_status_message'', ''Success''),
      (''axon_process_time'', ''0.1''), (''axon_ip'', ''198.123.23.1''),
      (''axon_port'', ''8091''), (''axon_version'', ''111''), (''axon_nonce'', ''111111''),
      (''axon_uuid'', ''5ecbd69c-1cec-11ee-b0dc-e29ce36fec1a''),
      (''axon_hotkey'', ''5EnjDGNqqWnuL2HCAdxeEtN2oqtXZw6BMBe936Kfy2PFz1J1''),
      (''axon_signature'', ''0x0813029319030129u4120u10841824y0182u091u230912u''),
      (''dendrite_status_code'', ''200''), (''dendrite_status_message'', ''Success''),
      (''dendrite_process_time'', ''0.1''), (''dendrite_ip'', ''198.123.23.1''),
      (''dendrite_port'', ''9282''), (''dendrite_version'', ''111''),
      (''dendrite_nonce'', ''111111''),
      (''dendrite_uuid'', ''5ecbd69c-1cec-11ee-b0dc-e29ce36fec1a''),
      (''dendrite_hotkey'', ''5EnjDGNqqWnuL2HCAdxeEtN2oqtXZw6BMBe936Kfy2PFz1J1''),
      (''dendrite_signature'', ''0x0813029319030129u4120u10841824y0182u091u230912u'')]"

definition forward_scenario :: "'f builtins \<Rightarrow> error + headers" where
  "forward_scenario B =
     (case TerminalInfo_init B [(''hotkey'', PyStr ''5Enj...''), (''nonce'', PyInt 111111)] of
        Inl e \<Rightarrow> Inl e
      | Inr t \<Rightarrow>
          (case Synapse_init B ''Synapse''
                  [(''name'', Val (PyStr ''Forward'')), (''timeout'', Val (PyFloat (float_12 B))),
                   (''axon'', Model t)] of
             Inl e \<Rightarrow> Inl e
           | Inr s \<Rightarrow> to_headers B s))"

text \<open>\<open>Synapse(timeout=None)\<close>, which the annotation \<open>Optional[float]\<close> admits.\<close>

definition untimed_call :: "dfloat Synapse" where
  "untimed_call =
     \<lparr>name = Some ''Synapse'', timeout = None,
      dendrite = Some TerminalInfo_default, axon = Some TerminalInfo_default\<rparr>"

definition partial_headers :: headers where
  "partial_headers =
     [(''name'', ''Forward''), (''timeout'', ''12.0''), (''axon_port'', ''not-a-number''),
      (''axon_ip'', ''1.2.3.4'')]"

section \<open>Running the model\<close>

lemmas builtins_defs = decimal_def dec_int_def dec_str_def dec_float_def dec_float_int_def
  digits.simps digit_chars_def digit_val_def strip_def is_space_def

lemmas model_defs = TerminalInfo_init_def Synapse_init_def set_name_type_def init_field_def
  pre_validated_def cast_int_def cast_float_def Let_def to_headers_def Synapse_dict_def
  TerminalInfo_dict_def prefixed_items_def dict_update_def dict_of_def TerminalInfo_default_def
  from_headers_def Synapse_setattr_def assigned_def from_headers_item_def try_set_def
  py_index_def str_split_def TerminalInfo_setattr_def

section \<open>The decimal builtins read integers back\<close>

lemma digit_val_digit: "d < 10 \<Longrightarrow> digit_val (digit_chars ! d) = Some d"
proof -
  assume "d < 10"
  then have "d \<in> {0, 1, 2, 3, 4, 5, 6, 7, 8, 9}" by auto
  then show ?thesis
    by (auto simp: digit_val_def digit_chars_def)
qed

lemma digit_chars_plain:
  "c \<in> set digit_chars \<Longrightarrow> \<not> is_space c \<and> c \<noteq> CHR ''-'' \<and> c \<noteq> CHR ''+''"
  by (auto simp: digit_chars_def is_space_def)

lemma digit_in_chars: "d < 10 \<Longrightarrow> digit_chars ! d \<in> set digit_chars"
  by (rule nth_mem) (simp add: digit_chars_def)

lemma digits_val_snoc:
  "digits_val acc (cs @ [c]) =
     (case digits_val acc cs of
        None \<Rightarrow> None
      | Some m \<Rightarrow> (case digit_val c of None \<Rightarrow> None | Some d \<Rightarrow> Some (10 * m + d)))"
  by (induction cs arbitrary: acc) (auto split: option.splits)

lemma digits_val_digits: "digits_val 0 (digits n) = Some n"
proof (induction n rule: digits.induct)
  case (1 n)
  show ?case
  proof (cases "n < 10")
    case True
    then show ?thesis
      by (subst digits.simps) (simp add: digit_val_digit)
  next
    case False
    with "1.IH" have "digits_val 0 (digits (n div 10)) = Some (n div 10)" by simp
    moreover have "n mod 10 < 10" by simp
    ultimately show ?thesis
      using False by (subst digits.simps) (simp add: digits_val_snoc digit_val_digit)
  qed
qed

lemma digits_chars: "c \<in> set (digits n) \<Longrightarrow> c \<in> set digit_chars"
proof (induction n arbitrary: c rule: digits.induct)
  case (1 n)
  show ?case
  proof (cases "n < 10")
    case True
    with "1.prems" show ?thesis
      by (subst (asm) digits.simps) (simp add: digit_in_chars)
  next
    case False
    have "n mod 10 < 10" by simp
    then have "digit_chars ! (n mod 10) \<in> set digit_chars" by (rule digit_in_chars)
    with False "1.prems" "1.IH" show ?thesis
      by (subst (asm) digits.simps) auto
  qed
qed

lemma digits_nonempty: "digits n \<noteq> []"
  by (subst digits.simps) simp

lemma strip_plain:
  assumes "\<And>c. c \<in> set xs \<Longrightarrow> \<not> is_space c"
  shows "strip xs = xs"
proof -
  have keep: "dropWhile is_space ys = ys" if "\<And>c. c \<in> set ys \<Longrightarrow> \<not> is_space c" for ys
    using that by (cases ys) auto
  from assms have "dropWhile is_space xs = xs"
    by (rule keep)
  moreover from assms have "dropWhile is_space (rev xs) = rev xs"
    by (intro keep) simp
  ultimately show ?thesis
    by (simp add: strip_def)
qed

lemma strip_digits: "strip (digits n) = digits n"
  by (rule strip_plain) (blast dest: digits_chars digit_chars_plain)

lemma parse_sign_digits: "parse_sign (digits n) = (False, digits n)"
proof (cases "digits n")
  case Nil
  then show ?thesis by (simp add: digits_nonempty)
next
  case (Cons c cs)
  then have "c \<in> set (digits n)" by simp
  then have "c \<noteq> CHR ''-'' \<and> c \<noteq> CHR ''+''"
    by (auto dest: digits_chars digit_chars_plain)
  with Cons show ?thesis by simp
qed

lemma minus_not_space: "\<not> is_space (CHR ''-'')"
  by (simp add: is_space_def)

lemma strip_minus_digits: "strip (CHR ''-'' # digits n) = CHR ''-'' # digits n"
proof (rule strip_plain)
  fix c
  assume "c \<in> set (CHR ''-'' # digits n)"
  then have "c = CHR ''-'' \<or> c \<in> set (digits n)" by simp
  then show "\<not> is_space c"
    using minus_not_space by (blast dest: digits_chars digit_chars_plain)
qed

text \<open>On the decimal builtins, every integer is read back as printed.\<close>

lemma dec_int_dec_str: "dec_int (dec_str n) = Some n"
proof (cases "n < 0")
  case True
  then show ?thesis
    by (simp add: dec_int_def dec_str_def strip_minus_digits digits_nonempty digits_val_digits)
next
  case False
  then show ?thesis
    by (simp add: dec_int_def dec_str_def strip_digits parse_sign_digits digits_nonempty
        digits_val_digits)
qed

lemma decimal_reparses_int: "reparses_int decimal x"
  by (cases x) (simp_all add: decimal_def dec_int_dec_str)

section \<open>Construction and assignment\<close>

lemma Synapse_init_name:
  "Synapse_init B cls kwargs = Inr s \<Longrightarrow> name s = Some cls"
  by (auto simp: Synapse_init_def Let_def set_name_type_def init_field_def AList.update_conv'
      split: if_splits)

lemma Synapse_init_empty:
  "Synapse_init B cls [] =
     Inr \<lparr>name = Some cls, timeout = Some (float_12 B),
          dendrite = Some TerminalInfo_default, axon = Some TerminalInfo_default\<rparr>"
  by (simp add: Synapse_init_def Let_def set_name_type_def init_field_def)

lemma validate_opt_int [simp]:
  "pre_validated (cast_int B) (optional_int B) (opt_int x) = Inr x"
  by (cases x) (simp_all add: pre_validated_def cast_int_def)

lemma validate_opt_float [simp]:
  "pre_validated (cast_float B) (optional_float B) (opt_float x) = Inr x"
  by (cases x) (simp_all add: pre_validated_def cast_float_def)

lemma validate_opt_str [simp]: "optional_str B (opt_str x) = Inr x"
  by (cases x) simp_all

lemma validate_opt_float_plain [simp]: "optional_float B (opt_float x) = Inr x"
  by (cases x) simp_all

lemma TerminalInfo_init_dict: "TerminalInfo_init B (TerminalInfo_dict t) = Inr t"
  by (simp add: TerminalInfo_init_def TerminalInfo_dict_def init_field_def)

lemma arg_terminal_dict [simp]: "arg_terminal B (terminal_arg x) = Inr x"
  by (cases x) (simp_all add: TerminalInfo_init_dict)

lemma Synapse_init_dict:
  "Synapse_init B cls (Synapse_dict s) = Inr (s\<lparr>name := Some cls\<rparr>)"
  by (simp add: Synapse_init_def Synapse_dict_def set_name_type_def init_field_def)

section \<open>Splitting keys\<close>

lemma keys_TerminalInfo_dict: "map fst (TerminalInfo_dict t) = TerminalInfo_fields"
  by (simp add: TerminalInfo_dict_def TerminalInfo_fields_def)

lemma split_axon_field:
  "k \<in> set TerminalInfo_fields \<Longrightarrow> str_split (''axon_'' @ k) ''axon_'' = [[], k]"
  by (auto simp: TerminalInfo_fields_def str_split_def)

lemma split_dendrite_field:
  "k \<in> set TerminalInfo_fields \<Longrightarrow> str_split (''dendrite_'' @ k) ''dendrite_'' = [[], k]"
  by (auto simp: TerminalInfo_fields_def str_split_def)

lemma split_field_dendrite:
  "k \<in> set TerminalInfo_fields \<Longrightarrow> str_split k ''dendrite_'' = [k]"
  by (auto simp: TerminalInfo_fields_def str_split_def)

lemma split_dendrite_field_axon:
  "k \<in> set TerminalInfo_fields \<Longrightarrow> str_split (''dendrite_'' @ k) ''axon_'' = [''dendrite_'' @ k]"
  by (auto simp: TerminalInfo_fields_def str_split_def)

lemma split_from_no_sep:
  "\<not> sublist sep s \<Longrightarrow> split_from sep 0 cur s = [cur @ s]"
proof (induction s arbitrary: cur)
  case Nil
  then show ?case by simp
next
  case (Cons c cs)
  then have "\<not> prefix sep (c # cs)" and "\<not> sublist sep cs"
    by (auto simp: sublist_Cons_right)
  with Cons.IH [of "cur @ [c]"] show ?case by simp
qed

lemma str_split_no_sep: "\<not> sublist sep s \<Longrightarrow> str_split s sep = [s]"
  by (simp add: str_split_def split_from_no_sep)

section \<open>The decoding loop\<close>

lemma item_axon_field:
  assumes "k \<in> set TerminalInfo_fields"
  shows "from_headers_item B (''axon_'' @ k, v) s =
           s\<lparr>axon := map_option (\<lambda>t. set_or_keep B t k v) (axon s)\<rparr>"
  using assms split_axon_field [of k] split_field_dendrite [of k]
  by (simp add: from_headers_item_def try_set_def py_index_def set_or_keep_def
      split: option.splits sum.splits)

lemma item_dendrite_field:
  assumes "k \<in> set TerminalInfo_fields"
  shows "from_headers_item B (''dendrite_'' @ k, v) s =
           s\<lparr>dendrite := map_option (\<lambda>t. set_or_keep B t k v) (dendrite s)\<rparr>"
  using assms split_dendrite_field [of k] split_dendrite_field_axon [of k]
  by (simp add: from_headers_item_def try_set_def py_index_def set_or_keep_def
      split: option.splits sum.splits)

lemma item_no_marker:
  assumes "\<not> sublist ''axon_'' k" and "\<not> sublist ''dendrite_'' k"
  shows "from_headers_item B (k, v) s = s"
  using assms
  by (simp add: from_headers_item_def try_set_def py_index_def str_split_no_sep)

lemma item_name: "from_headers_item B (''name'', v) s = s"
  by (simp add: from_headers_item_def try_set_def py_index_def str_split_def)

lemma item_timeout: "from_headers_item B (''timeout'', v) s = s"
  by (simp add: from_headers_item_def try_set_def py_index_def str_split_def)

lemma item_bad_axon_port:
  "int_str B v = None \<Longrightarrow> from_headers_item B (''axon_port'', v) s = s"
  by (simp add: from_headers_item_def try_set_def py_index_def str_split_def
      TerminalInfo_setattr_def assigned_def pre_validated_def cast_int_def split: option.splits)

lemma fold_axon_items:
  assumes "set (map fst items) \<subseteq> set TerminalInfo_fields" and "axon s = Some t"
  shows "fold (from_headers_item B) (map (\<lambda>(k, v). (''axon_'' @ k, v)) items) s =
           s\<lparr>axon := Some (decode_terminal B items t)\<rparr>"
  using assms
proof (induction items arbitrary: s t)
  case Nil
  then show ?case by (simp add: decode_terminal_def)
next
  case (Cons kv items)
  obtain k v where kv: "kv = (k, v)" by (cases kv)
  with Cons.prems have k: "k \<in> set TerminalInfo_fields" by simp
  let ?s = "s\<lparr>axon := Some (set_or_keep B t k v)\<rparr>"
  have "fold (from_headers_item B) (map (\<lambda>(k, v). (''axon_'' @ k, v)) items) ?s =
          ?s\<lparr>axon := Some (decode_terminal B items (set_or_keep B t k v))\<rparr>"
    using Cons.prems by (intro Cons.IH) simp_all
  then show ?case
    using Cons.prems item_axon_field [OF k, of B v s] by (simp add: kv decode_terminal_def)
qed

lemma fold_dendrite_items:
  assumes "set (map fst items) \<subseteq> set TerminalInfo_fields" and "dendrite s = Some t"
  shows "fold (from_headers_item B) (map (\<lambda>(k, v). (''dendrite_'' @ k, v)) items) s =
           s\<lparr>dendrite := Some (decode_terminal B items t)\<rparr>"
  using assms
proof (induction items arbitrary: s t)
  case Nil
  then show ?case by (simp add: decode_terminal_def)
next
  case (Cons kv items)
  obtain k v where kv: "kv = (k, v)" by (cases kv)
  with Cons.prems have k: "k \<in> set TerminalInfo_fields" by simp
  let ?s = "s\<lparr>dendrite := Some (set_or_keep B t k v)\<rparr>"
  have "fold (from_headers_item B) (map (\<lambda>(k, v). (''dendrite_'' @ k, v)) items) ?s =
          ?s\<lparr>dendrite := Some (decode_terminal B items (set_or_keep B t k v))\<rparr>"
    using Cons.prems by (intro Cons.IH) simp_all
  then show ?case
    using Cons.prems item_dendrite_field [OF k, of B v s] by (simp add: kv decode_terminal_def)
qed

lemma fold_delete_ignored:
  "(\<And>v s. (k, v) \<in> set H \<Longrightarrow> f (k, v) s = s) \<Longrightarrow> fold f (AList.delete k H) s = fold f H s"
  by (induction H arbitrary: s) (auto simp: AList.delete_eq)

lemma fold_update_ignored:
  "(\<And>v s. f (k, v) s = s) \<Longrightarrow> fold f (AList.update k v H) s = fold f H s"
  by (induction H arbitrary: s) auto

lemma from_headers_eq:
  assumes "map_of H ''timeout'' = Some v" and "float_str B v = Some x"
  shows "from_headers B H =
           Inr (fold (from_headers_item B) H
                  \<lparr>name = map_of H ''name'', timeout = Some x,
                   dendrite = Some TerminalInfo_default, axon = Some TerminalInfo_default\<rparr>)"
  using assms
  by (simp add: from_headers_def Synapse_init_def Let_def set_name_type_def init_field_def
      Synapse_setattr_def assigned_def)

section \<open>The header map of a Synapse\<close>

lemma comprehension_prefix:
  "[(p @ k, py_str B v). (k, v) \<leftarrow> xs, v \<noteq> PyNone] =
     map (\<lambda>(k, v). (p @ k, v)) [([] @ k, py_str B v). (k, v) \<leftarrow> xs, v \<noteq> PyNone]"
  by (induction xs) auto

lemma prefixed_items_map:
  "prefixed_items B p t = map (\<lambda>(k, v). (p @ k, v)) (prefixed_items B [] t)"
  unfolding prefixed_items_def by (rule comprehension_prefix)

lemma comprehension_keys:
  "map fst [(p @ k, py_str B v). (k, v) \<leftarrow> xs, v \<noteq> PyNone] =
     map ((@) p) (map fst (filter (\<lambda>kv. snd kv \<noteq> PyNone) xs))"
  by (induction xs) auto

lemma keys_prefixed_items:
  "map fst (prefixed_items B p t) =
     map ((@) p) (map fst (filter (\<lambda>kv. snd kv \<noteq> PyNone) (TerminalInfo_dict t)))"
  by (simp add: prefixed_items_def comprehension_keys)

lemma keys_prefixed_subset:
  "fst ` set (prefixed_items B p t) \<subseteq> (@) p ` set TerminalInfo_fields"
proof -
  let ?set = "filter (\<lambda>kv. snd kv \<noteq> PyNone) (TerminalInfo_dict t)"
  have "set (map fst ?set) \<subseteq> set (map fst (TerminalInfo_dict t))"
    by auto
  then have sub: "set (map fst ?set) \<subseteq> set TerminalInfo_fields"
    by (simp only: keys_TerminalInfo_dict)
  have "fst ` set (prefixed_items B p t) = set (map fst (prefixed_items B p t))"
    by simp
  also have "\<dots> = (@) p ` set (map fst ?set)"
    by (simp only: keys_prefixed_items set_map)
  also have "\<dots> \<subseteq> (@) p ` set TerminalInfo_fields"
    using sub by (rule image_mono)
  finally show ?thesis .
qed

lemma keys_prefixed_items_fields:
  "set (map fst (prefixed_items B [] t)) \<subseteq> set TerminalInfo_fields"
  using keys_prefixed_subset [of B "[]" t] by simp

lemma distinct_prefixed_items: "distinct (map fst (prefixed_items B p t))"
proof -
  have "distinct (map fst (TerminalInfo_dict t))"
    by (simp add: keys_TerminalInfo_dict TerminalInfo_fields_def)
  then have "distinct (map fst (filter (\<lambda>kv. snd kv \<noteq> PyNone) (TerminalInfo_dict t)))"
    by (rule distinct_map_filter)
  then have "distinct (map ((@) p) (map fst (filter (\<lambda>kv. snd kv \<noteq> PyNone) (TerminalInfo_dict t))))"
    unfolding distinct_map [of "(@) p"] by (auto intro!: inj_onI)
  then show ?thesis
    by (simp only: keys_prefixed_items)
qed

lemma update_fresh: "k \<notin> fst ` set h \<Longrightarrow> AList.update k v h = h @ [(k, v)]"
  by (induction h) auto

lemma dict_update_fresh:
  "distinct (map fst items) \<Longrightarrow> fst ` set items \<inter> fst ` set h = {} \<Longrightarrow>
     dict_update h items = h @ items"
proof (induction items arbitrary: h)
  case Nil
  then show ?case by (simp add: dict_update_def)
next
  case (Cons kv items)
  obtain k v where kv: "kv = (k, v)" by (cases kv)
  from Cons.prems have "k \<notin> fst ` set h" by (auto simp: kv)
  then have upd: "AList.update k v h = h @ [(k, v)]" by (rule update_fresh)
  have "dict_update (h @ [(k, v)]) items = (h @ [(k, v)]) @ items"
    using Cons.prems by (intro Cons.IH) (auto simp: kv)
  then show ?case by (simp add: dict_update_def kv upd)
qed

lemma dict_of_distinct: "distinct (map fst items) \<Longrightarrow> dict_of items = items"
  by (simp add: dict_of_def dict_update_fresh)

lemma dict_of_prefixed [simp]: "dict_of (prefixed_items B p t) = prefixed_items B p t"
  by (rule dict_of_distinct [OF distinct_prefixed_items])

lemma axon_keys_fresh: "(@) ''axon_'' ` X \<inter> {''name'', ''timeout''} = {}"
  by auto

lemma dendrite_keys_fresh:
  "(@) ''dendrite_'' ` X \<inter> ({''name'', ''timeout''} \<union> (@) ''axon_'' ` Y) = {}"
  by auto

lemma disjoint_subset: "A \<subseteq> A' \<Longrightarrow> A' \<inter> C = {} \<Longrightarrow> A \<inter> C = {}"
  by blast

lemma disjoint_subset2: 
  "A \<subseteq> A' \<Longrightarrow> C \<subseteq> C' \<Longrightarrow> A' \<inter> (H \<union> C') = {} \<Longrightarrow> A \<inter> (H \<union> C) = {}"
  by blast

lemma to_headers_eq:
  assumes "axon s = Some a" and "dendrite s = Some d"
  shows "to_headers B s =
           Inr ([(''name'', ''Synapse''), (''timeout'', py_str B (opt_float (timeout s)))]
                @ prefixed_items B ''axon_'' a @ prefixed_items B ''dendrite_'' d)"
proof -
  let ?h = "[(''name'', ''Synapse''), (''timeout'', py_str B (opt_float (timeout s)))]"
  let ?a = "prefixed_items B ''axon_'' a"
  let ?d = "prefixed_items B ''dendrite_'' d"
  have ka: "fst ` set ?a \<subseteq> (@) ''axon_'' ` set TerminalInfo_fields"
    by (rule keys_prefixed_subset)
  have kd: "fst ` set ?d \<subseteq> (@) ''dendrite_'' ` set TerminalInfo_fields"
    by (rule keys_prefixed_subset)
  have hk: "fst ` set ?h = {''name'', ''timeout''}"
    by simp
  have "fst ` set ?a \<inter> fst ` set ?h = {}"
    unfolding hk by (rule disjoint_subset [OF ka axon_keys_fresh])
  then have 1: "dict_update ?h ?a = ?h @ ?a"
    by (rule dict_update_fresh [OF distinct_prefixed_items])
  have "fst ` set ?d \<inter> ({''name'', ''timeout''} \<union> fst ` set ?a) = {}"
    by (rule disjoint_subset2 [OF kd ka dendrite_keys_fresh])
  then have "fst ` set ?d \<inter> fst ` set (?h @ ?a) = {}"
    unfolding set_append image_Un hk .
  then have 2: "dict_update (?h @ ?a) ?d = (?h @ ?a) @ ?d"
    by (rule dict_update_fresh [OF distinct_prefixed_items])
  have 3: "Synapse_init B ''Synapse'' (Synapse_dict s) = Inr (s\<lparr>name := Some ''Synapse''\<rparr>)"
    by (rule Synapse_init_dict)
  have "to_headers B s = Inr (dict_update (dict_update ?h ?a) ?d)"
    unfolding to_headers_def 3 using assms by (simp add: Let_def)
  then show ?thesis
    unfolding 1 2 by simp
qed

lemma to_headers_no_axon: "axon s = None \<Longrightarrow> to_headers B s = Inl AttributeError"
  by (simp add: to_headers_def Synapse_init_dict)

lemma to_headers_no_dendrite: "dendrite s = None \<Longrightarrow> to_headers B s = Inl AttributeError"
  by (simp add: to_headers_def Synapse_init_dict Let_def split: option.splits)

lemma to_headers_name: "to_headers B (s\<lparr>name := n\<rparr>) = to_headers B s"
  by (simp add: to_headers_def Synapse_init_dict)

section \<open>Decoding an encoded terminal\<close>

lemma option_case_self [simp]: "(case x of None \<Rightarrow> None | Some y \<Rightarrow> Some y) = x"
  by (cases x) simp_all

lemma prefixed_items_entries:
  "prefixed_items B [] t =
     entry B ''status_code'' (opt_int (status_code t))
     @ entry B ''status_message'' (opt_str (status_message t))
     @ entry B ''process_time'' (opt_float (process_time t))
     @ entry B ''ip'' (opt_str (ip t))
     @ entry B ''port'' (opt_int (port t))
     @ entry B ''version'' (opt_int (version t))
     @ entry B ''nonce'' (opt_int (nonce t))
     @ entry B ''uuid'' (opt_str (uuid t))
     @ entry B ''hotkey'' (opt_str (hotkey t))
     @ entry B ''signature'' (opt_str (signature t))"
  by (simp only: prefixed_items_def TerminalInfo_dict_def entry_def list.map concat.simps
      prod.case append_Nil append_Nil2)

lemma decode_status_code:
  "reparses_int B x \<Longrightarrow> status_code t = None \<Longrightarrow>
     decode_terminal B (entry B ''status_code'' (opt_int x)) t = t\<lparr>status_code := x\<rparr>"
  by (cases x) (simp_all add: decode_terminal_def entry_def set_or_keep_def
      TerminalInfo_setattr_def assigned_def pre_validated_def cast_int_def)

lemma decode_port:
  "reparses_int B x \<Longrightarrow> port t = None \<Longrightarrow>
     decode_terminal B (entry B ''port'' (opt_int x)) t = t\<lparr>port := x\<rparr>"
  by (cases x) (simp_all add: decode_terminal_def entry_def set_or_keep_def
      TerminalInfo_setattr_def assigned_def pre_validated_def cast_int_def)

lemma decode_version:
  "reparses_int B x \<Longrightarrow> version t = None \<Longrightarrow>
     decode_terminal B (entry B ''version'' (opt_int x)) t = t\<lparr>version := x\<rparr>"
  by (cases x) (simp_all add: decode_terminal_def entry_def set_or_keep_def
      TerminalInfo_setattr_def assigned_def pre_validated_def cast_int_def)

lemma decode_nonce:
  "reparses_int B x \<Longrightarrow> nonce t = None \<Longrightarrow>
     decode_terminal B (entry B ''nonce'' (opt_int x)) t = t\<lparr>nonce := x\<rparr>"
  by (cases x) (simp_all add: decode_terminal_def entry_def set_or_keep_def
      TerminalInfo_setattr_def assigned_def pre_validated_def cast_int_def)

lemma decode_process_time:
  "reparses_float B x \<Longrightarrow> process_time t = None \<Longrightarrow>
     decode_terminal B (entry B ''process_time'' (opt_float x)) t = t\<lparr>process_time := x\<rparr>"
  by (cases x) (simp_all add: decode_terminal_def entry_def set_or_keep_def
      TerminalInfo_setattr_def assigned_def pre_validated_def cast_float_def)

lemma decode_status_message:
  "status_message t = None \<Longrightarrow>
     decode_terminal B (entry B ''status_message'' (opt_str x)) t = t\<lparr>status_message := x\<rparr>"
  by (cases x) (simp_all add: decode_terminal_def entry_def set_or_keep_def
      TerminalInfo_setattr_def assigned_def)

lemma decode_ip:
  "ip t = None \<Longrightarrow>
     decode_terminal B (entry B ''ip'' (opt_str x)) t = t\<lparr>ip := x\<rparr>"
  by (cases x) (simp_all add: decode_terminal_def entry_def set_or_keep_def
      TerminalInfo_setattr_def assigned_def)

lemma decode_uuid:
  "uuid t = None \<Longrightarrow>
     decode_terminal B (entry B ''uuid'' (opt_str x)) t = t\<lparr>uuid := x\<rparr>"
  by (cases x) (simp_all add: decode_terminal_def entry_def set_or_keep_def
      TerminalInfo_setattr_def assigned_def)

lemma decode_hotkey:
  "hotkey t = None \<Longrightarrow>
     decode_terminal B (entry B ''hotkey'' (opt_str x)) t = t\<lparr>hotkey := x\<rparr>"
  by (cases x) (simp_all add: decode_terminal_def entry_def set_or_keep_def
      TerminalInfo_setattr_def assigned_def)

lemma decode_signature:
  "signature t = None \<Longrightarrow>
     decode_terminal B (entry B ''signature'' (opt_str x)) t = t\<lparr>signature := x\<rparr>"
  by (cases x) (simp_all add: decode_terminal_def entry_def set_or_keep_def
      TerminalInfo_setattr_def assigned_def)

lemmas decode_field = decode_status_code decode_status_message decode_process_time
  decode_ip decode_port decode_version decode_nonce decode_uuid decode_hotkey decode_signature

lemma decode_terminal_append:
  "decode_terminal B (xs @ ys) t = decode_terminal B ys (decode_terminal B xs t)"
  by (simp add: decode_terminal_def)

lemma decode_terminal_encode:
  assumes "terminal_reparses B a"
  shows "decode_terminal B (prefixed_items B [] a) TerminalInfo_default = a"
  using assms
  by (simp add: prefixed_items_entries decode_terminal_append terminal_reparses_def
      decode_field TerminalInfo_default_def)

section \<open>Decoding an encoded Synapse\<close>

text \<open>
  Decoding the header map of a Synapse gives back its timeout and both terminals, field
  for field; the name of the result is \<open>Synapse\<close>, whatever the name was.
\<close>

lemma decode_encode:
  assumes enc: "to_headers B s = Inr H" and set: "timeout s \<noteq> None"
      and rt: "numerals_reparse B s"
  shows "from_headers B H = Inr (s\<lparr>name := Some ''Synapse''\<rparr>)"
proof -
  from enc obtain a where a: "axon s = Some a"
    by (cases "axon s") (simp_all add: to_headers_no_axon)
  from enc obtain d where d: "dendrite s = Some d"
    by (cases "dendrite s") (simp_all add: to_headers_no_dendrite)
  from set rt obtain t where t: "timeout s = Some t"
    and rt_t: "float_str B (str_float B t) = Some t"
    by (cases "timeout s") (simp_all add: numerals_reparse_def)
  from rt a d have rt_a: "terminal_reparses B a" and rt_d: "terminal_reparses B d"
    by (simp_all add: numerals_reparse_def)
  let ?A = "map (\<lambda>(k, v). (''axon_'' @ k, v)) (prefixed_items B [] a)"
  let ?D = "map (\<lambda>(k, v). (''dendrite_'' @ k, v)) (prefixed_items B [] d)"
  have H: "H = (''name'', ''Synapse'') # (''timeout'', str_float B t) # ?A @ ?D"
    using enc to_headers_eq [OF a d, of B] t
    by (simp add: prefixed_items_map [of B "''axon_''"] prefixed_items_map [of B "''dendrite_''"])
  let ?s0 = "\<lparr>name = Some ''Synapse'', timeout = Some t,
              dendrite = Some TerminalInfo_default, axon = Some TerminalInfo_default\<rparr>"
  have "from_headers B H = Inr (fold (from_headers_item B) H ?s0)"
    using from_headers_eq [of H "str_float B t" B t] rt_t by (simp add: H)
  moreover have "fold (from_headers_item B) H ?s0 =
      fold (from_headers_item B) ?D (fold (from_headers_item B) ?A ?s0)"
    by (simp add: H item_name item_timeout)
  moreover have "fold (from_headers_item B) ?A ?s0 = ?s0\<lparr>axon := Some a\<rparr>"
    using fold_axon_items [where B = B and s = ?s0 and t = TerminalInfo_default
        and items = "prefixed_items B [] a"] keys_prefixed_items_fields [of B a]
    by (simp add: decode_terminal_encode [OF rt_a])
  moreover have "fold (from_headers_item B) ?D (?s0\<lparr>axon := Some a\<rparr>) =
      ?s0\<lparr>axon := Some a, dendrite := Some d\<rparr>"
    using fold_dendrite_items [where B = B and s = "?s0\<lparr>axon := Some a\<rparr>"
        and t = TerminalInfo_default and items = "prefixed_items B [] d"]
      keys_prefixed_items_fields [of B d]
    by (simp add: decode_terminal_encode [OF rt_d])
  moreover have "?s0\<lparr>axon := Some a, dendrite := Some d\<rparr> = s\<lparr>name := Some ''Synapse''\<rparr>"
    using a d t by simp
  ultimately show ?thesis by simp
qed

lemma decode_encoded_eq:
  assumes "axon s = Some a" and "dendrite s = Some d" and "timeout s \<noteq> None"
      and "numerals_reparse B s"
  shows "decode_encoded B s = Inr (s\<lparr>name := Some ''Synapse''\<rparr>)"
  using decode_encode [OF to_headers_eq [OF assms(1,2)] assms(3,4)]
    to_headers_eq [OF assms(1,2), of B]
  by (simp add: decode_encoded_def)

text \<open>
  The timeout has to be set for that: \<open>to_headers\<close> sends the timeout of a Synapse
  whose timeout is \<open>None\<close> as the text \<open>None\<close>, which \<open>float\<close> rejects.
\<close>

lemma unset_timeout_not_decoded:
  assumes "to_headers B s = Inr H" and "timeout s = None" and "float_str B ''None'' = None"
  shows "from_headers B H = Inl ValueError"
proof -
  from assms(1) obtain a where a: "axon s = Some a"
    by (cases "axon s") (simp_all add: to_headers_no_axon)
  from assms(1) obtain d where d: "dendrite s = Some d"
    by (cases "dendrite s") (simp_all add: to_headers_no_dendrite)
  from assms(1,2) to_headers_eq [OF a d, of B] have "map_of H ''timeout'' = Some ''None''"
    by auto
  with assms(3) show ?thesis
    by (simp add: from_headers_def Synapse_init_empty)
qed

text \<open>
  A key that contains neither \<open>axon_\<close> nor \<open>dendrite_\<close>, such as \<open>foo_bar\<close>,
  is ignored by the decoder.
\<close>

lemma unmarked_key_ignored:
  assumes "\<not> sublist ''axon_'' k" and "\<not> sublist ''dendrite_'' k"
      and "k \<noteq> ''name''" and "k \<noteq> ''timeout''"
  shows "from_headers B (AList.update k v H) = from_headers B H"
proof -
  have items: "fold (from_headers_item B) (AList.update k v H) = fold (from_headers_item B) H"
    using assms(1,2) by (intro ext fold_update_ignored item_no_marker)
  have keys: "map_of (AList.update k v H) ''timeout'' = map_of H ''timeout''"
    "map_of (AList.update k v H) ''name'' = map_of H ''name''"
    using assms(3,4) by (auto simp: AList.update_conv')
  show ?thesis
    unfolding from_headers_def items keys ..
qed

lemma foo_bar_ignored: "from_headers B (AList.update ''foo_bar'' ''baz'' H) = from_headers B H"
  by (rule unmarked_key_ignored) (simp_all add: sublist_Cons_right)

section \<open>The claims\<close>

subsection \<open>Coercion in the setters (C9)\<close>

text \<open>
  C9. The setters of \<open>port\<close>, \<open>nonce\<close>, \<open>version\<close> and \<open>status_code\<close>: assigning
  \<open>None\<close> leaves the field \<open>None\<close>; assigning a string that \<open>int\<close> accepts stores
  the integer it denotes; assigning a string that \<open>int\<close> rejects raises a
  ValidationError for that field, and nothing is stored.
\<close>

theorem int_setters_coerce:
  "TerminalInfo_setattr B t ''port'' PyNone = Inr (t\<lparr>port := None\<rparr>) \<and>
   TerminalInfo_setattr B t ''port'' (PyStr s) =
     (case int_str B s of None \<Rightarrow> Inl (ValidationError [''port''])
      | Some n \<Rightarrow> Inr (t\<lparr>port := Some n\<rparr>)) \<and>
   TerminalInfo_setattr B t ''nonce'' PyNone = Inr (t\<lparr>nonce := None\<rparr>) \<and>
   TerminalInfo_setattr B t ''nonce'' (PyStr s) =
     (case int_str B s of None \<Rightarrow> Inl (ValidationError [''nonce''])
      | Some n \<Rightarrow> Inr (t\<lparr>nonce := Some n\<rparr>)) \<and>
   TerminalInfo_setattr B t ''version'' PyNone = Inr (t\<lparr>version := None\<rparr>) \<and>
   TerminalInfo_setattr B t ''version'' (PyStr s) =
     (case int_str B s of None \<Rightarrow> Inl (ValidationError [''version''])
      | Some n \<Rightarrow> Inr (t\<lparr>version := Some n\<rparr>)) \<and>
   TerminalInfo_setattr B t ''status_code'' PyNone = Inr (t\<lparr>status_code := None\<rparr>) \<and>
   TerminalInfo_setattr B t ''status_code'' (PyStr s) =
     (case int_str B s of None \<Rightarrow> Inl (ValidationError [''status_code''])
      | Some n \<Rightarrow> Inr (t\<lparr>status_code := Some n\<rparr>))"
  by (simp add: TerminalInfo_setattr_def assigned_def pre_validated_def cast_int_def
      split: option.splits)

text \<open>On the decimal builtins: \<open>"9282"\<close> is stored as 9282, \<open>"not-a-number"\<close> raises.\<close>

theorem int_setters_coerce_witness:
  "TerminalInfo_setattr decimal TerminalInfo_default ''port'' (PyStr ''9282'') =
     Inr (TerminalInfo_default\<lparr>port := Some 9282\<rparr>) \<and>
   TerminalInfo_setattr decimal TerminalInfo_default ''nonce'' (PyStr ''not-a-number'') =
     Inl (ValidationError [''nonce''])"
  using int_setters_coerce [of decimal TerminalInfo_default "''9282''"]
    int_setters_coerce [of decimal TerminalInfo_default "''not-a-number''"]
  by (simp add: builtins_defs)

subsection \<open>The name of a constructed Synapse (C10, C6)\<close>

text \<open>
  C10. For every string \<open>s\<close>, constructing an object of a Synapse class with
  \<open>name=s\<close> gives an object whose name is the name of the class (\<open>Synapse\<close> for the
  base class), the other fields having their defaults; and whatever the other arguments
  are, the construction with \<open>name=s\<close> is the construction without it: the argument
  is discarded.
\<close>

theorem constructor_discards_name:
  "Synapse_init B cls [(''name'', Val (PyStr s))] =
     Inr \<lparr>name = Some cls, timeout = Some (float_12 B),
          dendrite = Some TerminalInfo_default, axon = Some TerminalInfo_default\<rparr> \<and>
   Synapse_init B cls ((''name'', Val (PyStr s)) # kwargs) = Synapse_init B cls kwargs"
  by (simp add: Synapse_init_def Let_def set_name_type_def init_field_def AList.update_conv')

text \<open>
  C6 as stated (an assignment of a different value to \<open>name\<close> fails and leaves the
  name unchanged) does not hold: on a fresh \<open>Synapse()\<close>, whose name is \<open>Synapse\<close>,
  the assignment \<open>synapse.name = 'Forward'\<close> returns normally and the name is
  \<open>Forward\<close> afterwards.
\<close>

theorem name_reassignment_counterexample:
  "(case Synapse_init decimal ''Synapse'' [] of
      Inl e \<Rightarrow> None
    | Inr s \<Rightarrow>
        (case Synapse_setattr decimal ''Synapse'' s ''name'' (Val (PyStr ''Forward'')) of
           Inl e \<Rightarrow> None
         | Inr s' \<Rightarrow> Some (name s, name s')))
   = Some (Some ''Synapse'', Some ''Forward'')"
  by (simp add: Synapse_init_def Let_def set_name_type_def init_field_def Synapse_setattr_def
      assigned_def)

text \<open>
  C6, amended. Construction derives the name from the class; a later assignment of a
  string to \<open>name\<close> succeeds and replaces the name by the assigned string (the field
  is declared with \<open>allow_mutation = True\<close>, and \<open>from_headers\<close> assigns it).
\<close>

theorem name_assignment_replaces:
  "Synapse_init B cls [] =
     Inr \<lparr>name = Some cls, timeout = Some (float_12 B),
          dendrite = Some TerminalInfo_default, axon = Some TerminalInfo_default\<rparr> \<and>
   Synapse_setattr B cls s ''name'' (Val (PyStr v)) = Inr (s\<lparr>name := Some v\<rparr>)"
  by (simp add: Synapse_init_def Let_def set_name_type_def init_field_def Synapse_setattr_def
      assigned_def)

subsection \<open>The concrete scenario (C2)\<close>

text \<open>
  C2 as stated (the header map of the scenario is name=Forward, timeout=12.0,
  axon_hotkey=5Enj..., axon_nonce=111111) does not hold: the scenario does not give
  that map.
\<close>

theorem forward_scenario_counterexample:
  "\<not> (case forward_scenario decimal of
         Inl e \<Rightarrow> False
       | Inr h \<Rightarrow>
           map_of h = map_of [(''name'', ''Forward''), (''timeout'', ''12.0''),
                              (''axon_hotkey'', ''5Enj...''), (''axon_nonce'', ''111111'')])"
proof
  assume claimed: "case forward_scenario decimal of
         Inl e \<Rightarrow> False
       | Inr h \<Rightarrow>
           map_of h = map_of [(''name'', ''Forward''), (''timeout'', ''12.0''),
                              (''axon_hotkey'', ''5Enj...''), (''axon_nonce'', ''111111'')]"
  have actual: "forward_scenario decimal =
      Inr [(''name'', ''Synapse''), (''timeout'', ''12.0''), (''axon_nonce'', ''111111''),
           (''axon_hotkey'', ''5Enj...'')]"
    by (simp add: forward_scenario_def model_defs builtins_defs)
  from claimed have
    "map_of [(''name'', ''Synapse''), (''timeout'', ''12.0''), (''axon_nonce'', ''111111''),
             (''axon_hotkey'', ''5Enj...'')] ''name''
     = map_of [(''name'', ''Forward''), (''timeout'', ''12.0''),
               (''axon_hotkey'', ''5Enj...''), (''axon_nonce'', ''111111'')] ''name''"
    unfolding actual sum.case by (rule fun_cong)
  then show False by simp
qed

text \<open>
  C2, amended. The header map of the scenario has exactly four entries: name=Synapse
  (the constructor has discarded \<open>name="Forward"\<close>), timeout=12.0, axon_nonce=111111
  and axon_hotkey=5Enj...; no key starts with \<open>dendrite_\<close>.
\<close>

theorem forward_scenario_headers:
  "forward_scenario decimal =
     Inr [(''name'', ''Synapse''), (''timeout'', ''12.0''), (''axon_nonce'', ''111111''),
          (''axon_hotkey'', ''5Enj...'')]"
  by (simp add: forward_scenario_def model_defs builtins_defs)

subsection \<open>The timeout is mandatory (C5)\<close>

text \<open>
  C5 as stated (decoding a header map whose \<open>timeout\<close> is absent or is not the text
  of a float gives a MissingMandatoryField or MalformedHeaderValue error, returned as a
  structured outcome) does not hold: \<open>from_headers\<close> returns nothing on such a map.
  Without the key, \<open>float(None)\<close> raises Python's TypeError; with the text \<open>soon\<close>,
  \<open>float('soon')\<close> raises ValueError; neither is caught.
\<close>

theorem timeout_error_counterexample:
  "\<not> returns (from_headers decimal [(''name'', ''Forward'')]) \<and>
   from_headers decimal [(''name'', ''Forward'')] = Inl TypeError \<and>
   \<not> returns (from_headers decimal [(''name'', ''Forward''), (''timeout'', ''soon'')]) \<and>
   from_headers decimal [(''name'', ''Forward''), (''timeout'', ''soon'')] = Inl ValueError"
  by (simp add: returns_def model_defs builtins_defs)

text \<open>
  C5, amended. Decoding a header map without the key \<open>timeout\<close> raises TypeError
  (from \<open>float(None)\<close>), and decoding a header map whose \<open>timeout\<close> is a text that
  \<open>float\<close> rejects raises ValueError. The exception is raised by the second statement
  of \<open>from_headers\<close>, before the name or any other key is read, and leaves the function
  uncaught: the code has no error kinds of its own and returns no outcome.
\<close>

theorem timeout_mandatory:
  "(map_of H ''timeout'' = None \<longrightarrow> from_headers B H = Inl TypeError) \<and>
   (\<forall>v. map_of H ''timeout'' = Some v \<and> float_str B v = None
        \<longrightarrow> from_headers B H = Inl ValueError)"
  by (simp add: from_headers_def Synapse_init_def Let_def set_name_type_def init_field_def)

theorem timeout_mandatory_witness:
  "map_of [(''name'', ''Forward'')] ''timeout'' = None \<and>
   from_headers decimal [(''name'', ''Forward'')] = Inl TypeError \<and>
   map_of [(''name'', ''Forward''), (''timeout'', ''soon'')] ''timeout'' = Some ''soon'' \<and>
   float_str decimal ''soon'' = None \<and>
   from_headers decimal [(''name'', ''Forward''), (''timeout'', ''soon'')] = Inl ValueError"
proof -
  have absent: "map_of [(''name'', ''Forward'')] ''timeout'' = None"
    by simp
  have present: "map_of [(''name'', ''Forward''), (''timeout'', ''soon'')] ''timeout'' = Some ''soon''"
    by simp
  have malformed: "float_str decimal ''soon'' = None"
    by (simp add: builtins_defs)
  from timeout_mandatory [of "[(''name'', ''Forward'')]" decimal] absent
  have 1: "from_headers decimal [(''name'', ''Forward'')] = Inl TypeError"
    by blast
  from timeout_mandatory [of "[(''name'', ''Forward''), (''timeout'', ''soon'')]" decimal]
    present malformed
  have 2: "from_headers decimal [(''name'', ''Forward''), (''timeout'', ''soon'')] = Inl ValueError"
    by blast
  from absent present malformed 1 2 show ?thesis by blast
qed

subsection \<open>A value that fails coercion (C4)\<close>

text \<open>
  C4 as stated (decoding a header map whose \<open>axon_port\<close> is \<open>not-a-number\<close> fails
  with an error attributed to \<open>axon_port\<close>) does not hold: decoding returns a Synapse,
  with the port unset and the other fields filled.
\<close>

theorem bad_axon_port_counterexample:
  "from_headers decimal partial_headers =
     Inr \<lparr>name = Some ''Forward'', timeout = Some (DFloat False 12 0),
          dendrite = Some TerminalInfo_default,
          axon = Some (TerminalInfo_default\<lparr>ip := Some ''1.2.3.4''\<rparr>)\<rparr>"
  by (simp add: partial_headers_def model_defs builtins_defs)

text \<open>
  C4, amended. For every header map whose \<open>axon_port\<close> is a text that \<open>int\<close> rejects
  and whose \<open>timeout\<close> is the text of a float, decoding does not fail and no error is
  reported: the assignment that raises is swallowed by the \<open>except\<close> clause, and the
  result is the Synapse that the header map without its \<open>axon_port\<close> entry decodes to,
  so every other entry is decoded as if \<open>axon_port\<close> were absent.
\<close>

theorem bad_axon_port_swallowed:
  assumes "distinct (map fst H)" and "map_of H ''axon_port'' = Some v" and "int_str B v = None"
      and "map_of H ''timeout'' = Some u" and "float_str B u = Some x"
  shows "\<exists>s. from_headers B H = Inr s \<and> from_headers B (AList.delete ''axon_port'' H) = Inr s"
proof -
  have "fold (from_headers_item B) (AList.delete ''axon_port'' H) s
          = fold (from_headers_item B) H s" for s
  proof (rule fold_delete_ignored)
    fix v' s'
    assume "(''axon_port'', v') \<in> set H"
    with assms(1,2) have "v' = v" by simp
    with assms(3) show "from_headers_item B (''axon_port'', v') s' = s'"
      by (simp add: item_bad_axon_port)
  qed
  moreover have "map_of (AList.delete ''axon_port'' H) ''timeout'' = Some u"
    and "map_of (AList.delete ''axon_port'' H) ''name'' = map_of H ''name''"
    using assms(4) by simp_all
  ultimately show ?thesis
    using assms(4,5) by (simp add: from_headers_eq [where x = x and v = u])
qed

theorem bad_axon_port_swallowed_witness:
  "distinct (map fst partial_headers) \<and>
   map_of partial_headers ''axon_port'' = Some ''not-a-number'' \<and>
   int_str decimal ''not-a-number'' = None \<and>
   map_of partial_headers ''timeout'' = Some ''12.0'' \<and>
   float_str decimal ''12.0'' = Some (DFloat False 12 0) \<and>
   (\<exists>s. from_headers decimal partial_headers = Inr s \<and>
        from_headers decimal (AList.delete ''axon_port'' partial_headers) = Inr s)"
proof -
  have 1: "distinct (map fst partial_headers)"
    by (simp add: partial_headers_def)
  have 2: "map_of partial_headers ''axon_port'' = Some ''not-a-number''"
    by (simp add: partial_headers_def)
  have 3: "int_str decimal ''not-a-number'' = None"
    by (simp add: builtins_defs)
  have 4: "map_of partial_headers ''timeout'' = Some ''12.0''"
    by (simp add: partial_headers_def)
  have 5: "float_str decimal ''12.0'' = Some (DFloat False 12 0)"
    by (simp add: builtins_defs)
  from bad_axon_port_swallowed [OF 1 2 3 4 5] 1 2 3 4 5 show ?thesis
    by blast
qed

subsection \<open>The prefix rule (C3, C8)\<close>

text \<open>
  C3. The claim is that a key is handled by its prefix alone: \<open>axon_\<close> first, else
  \<open>dendrite_\<close>, else the key is ignored. The loop takes the second piece of
  \<open>k.split('axon_')\<close> instead, and runs its second block on what the first block left
  in \<open>k\<close>. So the key \<open>foo_axon_port\<close>, which starts with neither prefix, sets the port
  of the axon, and the key \<open>axon_dendrite_port\<close>, which starts with \<open>axon_\<close> and whose
  remainder is not a field, sets the port of the dendrite.
\<close>

theorem prefix_rule_violated:
  "from_headers decimal [(''timeout'', ''12.0''), (''foo_axon_port'', ''80'')] =
     Inr \<lparr>name = None, timeout = Some (DFloat False 12 0),
          dendrite = Some TerminalInfo_default,
          axon = Some (TerminalInfo_default\<lparr>port := Some 80\<rparr>)\<rparr> \<and>
   from_headers decimal [(''timeout'', ''12.0''), (''axon_dendrite_port'', ''80'')] =
     Inr \<lparr>name = None, timeout = Some (DFloat False 12 0),
          dendrite = Some (TerminalInfo_default\<lparr>port := Some 80\<rparr>),
          axon = Some TerminalInfo_default\<rparr>"
  by (simp add: model_defs builtins_defs)

text \<open>
  C8. The claim is that an entry whose key has an unrecognized prefix, or a recognized
  prefix and an unrecognized field name, does not change the result of decoding. For
  the key \<open>foo_bar\<close> that is so (\<open>foo_bar_ignored\<close>). For the header map with only
  timeout=12.0 it fails for the key \<open>foo_axon_ip\<close>, whose entry sets the ip of the axon,
  and for the key \<open>axon_dendrite_ip\<close>, whose entry sets the ip of the dendrite.
\<close>

theorem unknown_key_not_ignored:
  "from_headers decimal [(''timeout'', ''12.0'')] =
     Inr \<lparr>name = None, timeout = Some (DFloat False 12 0),
          dendrite = Some TerminalInfo_default, axon = Some TerminalInfo_default\<rparr> \<and>
   from_headers decimal (AList.update ''foo_axon_ip'' ''baz'' [(''timeout'', ''12.0'')]) =
     Inr \<lparr>name = None, timeout = Some (DFloat False 12 0),
          dendrite = Some TerminalInfo_default,
          axon = Some (TerminalInfo_default\<lparr>ip := Some ''baz''\<rparr>)\<rparr> \<and>
   from_headers decimal (AList.update ''axon_dendrite_ip'' ''baz'' [(''timeout'', ''12.0'')]) =
     Inr \<lparr>name = None, timeout = Some (DFloat False 12 0),
          dendrite = Some (TerminalInfo_default\<lparr>ip := Some ''baz''\<rparr>),
          axon = Some TerminalInfo_default\<rparr>"
  by (simp add: model_defs builtins_defs)

subsection \<open>Round trips (C7, C1)\<close>

text \<open>
  C7 as stated (for every header map produced by \<open>to_headers\<close>, encoding its decoding
  gives the header map again) does not hold: \<open>Synapse(timeout=None)\<close> is encoded with
  the timeout \<open>None\<close> as text, and decoding that header map raises ValueError.
\<close>

theorem unset_timeout_counterexample:
  "Synapse_init decimal ''Synapse'' [(''timeout'', Val PyNone)] = Inr untimed_call \<and>
   to_headers decimal untimed_call = Inr [(''name'', ''Synapse''), (''timeout'', ''None'')] \<and>
   encode_decoded decimal [(''name'', ''Synapse''), (''timeout'', ''None'')] = Inl ValueError"
  by (simp add: untimed_call_def encode_decoded_def prefixed_items_entries entry_def
      model_defs builtins_defs)

text \<open>
  C7, amended. For every header map \<open>H\<close> produced by \<open>to_headers\<close> from a Synapse
  whose timeout is set, decoding \<open>H\<close> succeeds and encoding the result gives \<open>H\<close>
  again, key for key and in the same order; the builtins are taken to read back the
  numbers they print (\<open>numerals_reparse\<close>).
\<close>

theorem encode_decode_encode:
  assumes "to_headers B s = Inr H" and "timeout s \<noteq> None" and "numerals_reparse B s"
  shows "encode_decoded B H = Inr H"
  using assms(1) decode_encode [OF assms] by (simp add: encode_decoded_def to_headers_name)

theorem encode_decode_encode_witness:
  "to_headers decimal (example_call ''Synapse'') = Inr example_headers \<and>
   timeout (example_call ''Synapse'') \<noteq> None \<and>
   numerals_reparse decimal (example_call ''Synapse'') \<and>
   encode_decoded decimal example_headers = Inr example_headers"
proof -
  have 1: "to_headers decimal (example_call ''Synapse'') = Inr example_headers"
    by (simp add: example_call_def example_terminal_def example_headers_def model_defs
        builtins_defs)
  have 2: "timeout (example_call ''Synapse'') \<noteq> None"
    by (simp add: example_call_def)
  have 3: "numerals_reparse decimal (example_call ''Synapse'')"
    by (simp add: example_call_def example_terminal_def numerals_reparse_def
        terminal_reparses_def builtins_defs)
  from encode_decode_encode [OF 1 2 3] 1 2 3 show ?thesis
    by blast
qed

text \<open>
  C1. The claim is that decoding the encoding of a Synapse gives back its name, its
  timeout and the fields of both terminals. The timeout and the terminals come back
  (\<open>decode_encoded_eq\<close>); the name does not: \<open>to_headers\<close> rebuilds the object as a
  base \<open>Synapse\<close>, whose root validator sets the name to \<open>Synapse\<close>, and sends that
  name. For a call of a class \<open>Forward\<close> with every field filled, the decoded name is
  \<open>Synapse\<close>, not \<open>Forward\<close>.
\<close>

theorem round_trip_loses_name:
  "name (example_call ''Forward'') = Some ''Forward'' \<and>
   decode_encoded decimal (example_call ''Forward'') =
     Inr ((example_call ''Forward'')\<lparr>name := Some ''Synapse''\<rparr>)"
  by (simp add: decode_encoded_def example_call_def example_terminal_def model_defs
      builtins_defs)

end
